theory Spec2Isabelle
  imports Main
begin

section \<open>Export registry (src/module.ts, getContents)\<close>

text \<open>
  The module keeps one \<open>context\<close> object with two tables, both created with
  \<open>Object.create(null)\<close>: \<open>workerExports\<close> maps an export name to the file that owns it,
  \<open>reverseMap\<close> maps a file to the list of names registered for it. A table without a
  prototype has own keys only, so \<open>e in context.workerExports\<close> is exactly membership in
  the domain of a map.
\<close>

record worker_context =
  workerExports :: "string \<rightharpoonup> string"
  reverseMap :: "string \<rightharpoonup> string list"

text \<open>
  What one run of \<open>getContents\<close> produces besides the tables: the lines written with
  \<open>console.warn\<close> and the text of the declaration file it returns.
\<close>

record scan = worker_context +
  warnings :: "string list"
  script :: string

definition duplicate_warning :: "string \<Rightarrow> string \<Rightarrow> string \<Rightarrow> string" where
  "duplicate_warning e file existing =
     ''[nuxt-workers] Duplicate export `'' @ e @ ''` found in `'' @ file @ ''` and `''
       @ existing @ ''`.''"

text \<open>
  The line added to the declaration file for a registered name. \<open>rel file\<close> stands for
  \<open>JSON.stringify(relative(typesDir, file))\<close>, computed by the path library.
\<close>

definition declaration_line :: "(string \<Rightarrow> string) \<Rightarrow> string \<Rightarrow> string \<Rightarrow> string" where
  "declaration_line rel file e =
     ''  const '' @ e @ '': ToAsyncFunction<typeof import('' @ rel file @ '').'' @ e @ ''>'' @ [CHR 0x0A]"

text \<open>The loop \<open>for (const e of exports)\<close> over the export names of one file.\<close>

fun register :: "(string \<Rightarrow> string) \<Rightarrow> string \<Rightarrow> string list \<Rightarrow> scan \<Rightarrow> scan" where
  "register rel file [] st = st"
| "register rel file (e # es) st =
     register rel file es
       (case workerExports st e of
          Some existing \<Rightarrow> st\<lparr>warnings := warnings st @ [duplicate_warning e file existing]\<rparr>
        | None \<Rightarrow>
            st\<lparr>workerExports := (workerExports st)(e \<mapsto> file),
               reverseMap := (reverseMap st)
                 (file \<mapsto> (case reverseMap st file of None \<Rightarrow> [] | Some xs \<Rightarrow> xs) @ [e]),
               script := script st @ declaration_line rel file e\<rparr>)"

text \<open>
  The loop \<open>for (const file of flattenedFiles)\<close>. Reading a file and extracting its export
  names is done by libraries, so a scan's input is the list of files found, each with the
  names \<open>findExportNames\<close> returned for it.
\<close>

fun register_files :: "(string \<Rightarrow> string) \<Rightarrow> (string \<times> string list) list \<Rightarrow> scan \<Rightarrow> scan" where
  "register_files rel [] st = st"
| "register_files rel ((file, exports) # fs) st = register_files rel fs (register rel file exports st)"

definition script_header :: string where
  "script_header =
     ''type ToAsyncFunction<T> = T extends (...args: infer A) => infer R ? (...args: A) => Promise<R> : T''
       @ [CHR 0x0A] @ ''export {}'' @ [CHR 0x0A, CHR 0x0A] @ ''declare global {'' @ [CHR 0x0A]"

text \<open>
  \<open>reset\<close> is the pair of assignments of fresh tables at the start of every scan;
  \<open>getContents\<close> is the whole template function, run on the context left by the previous
  scan.
\<close>

definition reset :: "worker_context \<Rightarrow> scan" where
  "reset c = \<lparr>workerExports = Map.empty, reverseMap = Map.empty, warnings = [], script = script_header\<rparr>"

definition getContents :: "(string \<Rightarrow> string) \<Rightarrow> (string \<times> string list) list \<Rightarrow> worker_context \<Rightarrow> scan" where
  "getContents rel files c =
     (let st = register_files rel files (reset c)
      in st\<lparr>script := script st @ ''}'' @ [CHR 0x0A]\<rparr>)"

definition context_of :: "scan \<Rightarrow> worker_context" where
  "context_of st = \<lparr>workerExports = workerExports st, reverseMap = reverseMap st\<rparr>"

section \<open>The worker transform (src/plugins/unplugin.ts, WorkerTransformPlugin)\<close>

datatype mode = Server | Client

text \<open>
  The plugin options. \<open>sourcemap\<close> is optional in the source, hence an option here.
\<close>

record opts =
  mode :: mode
  opts_context :: worker_context
  sourcemap :: "bool option"

text \<open>
  Strings are the bytes of the UTF-8 text. In a JavaScript regular expression without
  flags \<open>.\<close> matches everything except the line terminators (line feed, carriage
  return, U+2028 and U+2029, the last two being \<open>E2 80 A8\<close> and \<open>E2 80 A9\<close> in UTF-8)
  and \<open>$\<close> matches at the end of the input only.
\<close>

fun has_line_terminator :: "string \<Rightarrow> bool" where
  "has_line_terminator [] = False"
| "has_line_terminator (c # cs) =
     (c = CHR 0x0A \<or> c = CHR 0x0D
      \<or> (c = CHR 0xE2 \<and> (take 2 cs = [CHR 0x80, CHR 0xA8] \<or> take 2 cs = [CHR 0x80, CHR 0xA9]))
      \<or> has_line_terminator cs)"

text \<open>
  \<open>_id.replace(/\?.+$/, '')\<close>: the leftmost question mark that is followed, up to the end
  of the string, by at least one character and by no line terminator is removed together
  with everything after it.
\<close>

fun strip_query :: "string \<Rightarrow> string" where
  "strip_query [] = []"
| "strip_query (c # cs) =
     (if c = CHR ''?'' \<and> cs \<noteq> [] \<and> \<not> has_line_terminator cs then [] else c # strip_query cs)"

definition endsWith :: "string \<Rightarrow> string \<Rightarrow> bool" where
  "endsWith s suffix = (length suffix \<le> length s \<and> drop (length s - length suffix) s = suffix)"

fun join :: "string \<Rightarrow> string list \<Rightarrow> string" where
  "join sep [] = []"
| "join sep [x] = x"
| "join sep (x # y # ys) = x @ sep @ join sep (y # ys)"

definition workerExports_text :: "string list \<Rightarrow> string" where
  "workerExports_text exports =
     ''__worker_exports__ = { '' @ join '', '' (map (\<lambda>e. e @ '': '' @ e) exports) @ '' }''"

text \<open>The text appended to a worker file, for a dedicated worker and for a shared worker.\<close>

definition regular_dispatcher :: "string list \<Rightarrow> string" where
  \<open>regular_dispatcher exports = join [CHR 0x0A]
     ['''',
      ''const '' @ workerExports_text exports @ '';'',
      ''self.onmessage = async (e) => {'',
      ''  console.log("[Worker] Message received:", e.data);'',
      ''  const { name, args, id } = e.data;'',
      ''  const fn = __worker_exports__[name];'',
      ''  if (!fn) {'',
      ''    self.postMessage({ error: "Function not found: " + name, id });'',
      ''    return;'',
      ''  }'',
      ''  try {'',
      ''    const result = await fn(...args);'',
      ''    self.postMessage({ result, id });'',
      ''  } catch (e) {'',
      ''    self.postMessage({ error: e.message, id });'',
      ''  }'',
      ''};'']\<close>

definition shared_dispatcher :: "string list \<Rightarrow> string" where
  \<open>shared_dispatcher exports = join [CHR 0x0A]
     ['''',
      ''const '' @ workerExports_text exports @ '';'',
      ''self.onconnect = function(e) {'',
      ''  const port = e.ports[0];'',
      ''  console.log("[SharedWorker] Connected:", port);'',
      ''  port.onmessage = async function(event) {'',
      ''    console.log("[SharedWorker] Message received:", event.data);'',
      ''    const { name, args, id } = event.data;'',
      ''    const fn = __worker_exports__[name];'',
      ''    if (!fn) {'',
      ''      port.postMessage({ error: "Function not found: " + name, id });'',
      ''      return;'',
      ''    }'',
      ''    try {'',
      ''      const result = await fn(...args);'',
      ''      port.postMessage({ result, id });'',
      ''    } catch (e) {'',
      ''      port.postMessage({ error: e.message, id });'',
      ''    }'',
      ''  };'',
      ''  port.start();'',
      ''};'']\<close>

definition dispatcher_text :: "string \<Rightarrow> string list \<Rightarrow> string" where
  "dispatcher_text file exports =
     (if endsWith file ''.shared.ts'' then shared_dispatcher exports else regular_dispatcher exports)"

record transform_result =
  code :: string
  source_map :: "string option"

text \<open>
  \<open>transform(code, _id)\<close>. Two library calls are parameters: \<open>deexport src\<close> is the
  content of the \<open>MagicString\<close> after the loop that removes the \<open>export\<close> keywords found
  by \<open>findExports\<close>, and \<open>generateMap\<close> produces the source map of the edited text.
  \<open>None\<close> is the source's \<open>return\<close> without a value: the bundler keeps the file as it is.
\<close>

definition transform ::
  "opts \<Rightarrow> (string \<Rightarrow> string) \<Rightarrow> (string \<Rightarrow> string) \<Rightarrow> string \<Rightarrow> string \<Rightarrow> transform_result option" where
  "transform opts deexport generateMap src raw_id =
     (if mode opts = Server then None
      else
        let file = strip_query raw_id in
        case reverseMap (opts_context opts) file of
          None \<Rightarrow> None
        | Some exports \<Rightarrow>
            let s = deexport src @ dispatcher_text file exports in
            Some \<lparr>code = s,
                  source_map = (if sourcemap opts = Some True then Some (generateMap s) else None)\<rparr>)"

section \<open>Values, functions and envelopes\<close>

text \<open>
  The values that cross the worker boundary are structured-cloneable data, on which
  \<open>postMessage\<close> cannot fail. Numbers are restricted to integers, which is all the
  examples below need.
\<close>

datatype val =
    VUndefined
  | VNull
  | VBool bool
  | VNum int
  | VStr string
  | VArr "val list"
  | VObj "(string \<times> val) list"

text \<open>
  What a \<open>catch (e)\<close> block can receive, classified by what \<open>e.message\<close> evaluates to:
  an error object with a message text, a value other than \<open>null\<close> and \<open>undefined\<close> that
  has no \<open>message\<close> property (a thrown string, say), or \<open>null\<close>/\<open>undefined\<close> itself, as
  left by \<open>throw undefined\<close> or by \<open>Promise.reject()\<close> without an argument.
\<close>

datatype thrown = ThrownError string | ThrownNoMessage | ThrownNullish

text \<open>
  The settlement of \<open>await fn(...args)\<close>: the function returned (or the promise it
  returned was fulfilled), or it threw (or the promise was rejected). An invocation that
  never settles, and one that returns a value which cannot be cloned, are outside the
  model.
\<close>

datatype outcome = Returned val | Threw thrown

text \<open>
  The value bound to a name: a function, or a value that cannot be called, with its
  truthiness.
\<close>

datatype binding = Fn "val list \<Rightarrow> outcome" | NotCallable bool

text \<open>An exception raised by the engine itself that no handler of the generated code catches.\<close>

datatype js_error = TypeError

text \<open>
  The message text of the \<open>TypeError\<close> that calling a non-function raises is chosen by the
  engine; this is V8's wording. Nothing below depends on the text.
\<close>

definition not_a_function :: string where
  "not_a_function = ''fn is not a function''"

fun invoke :: "binding \<Rightarrow> val list \<Rightarrow> outcome" where
  "invoke (Fn f) args = f args"
| "invoke (NotCallable t) args = Threw (ThrownError not_a_function)"

fun falsy :: "binding \<Rightarrow> bool" where
  "falsy (Fn f) = False"
| "falsy (NotCallable t) = (\<not> t)"

text \<open>\<open>e.message\<close>: \<open>None\<close> is \<open>undefined\<close>; reading a property of \<open>null\<close> or \<open>undefined\<close> raises.\<close>

fun message_of :: "thrown \<Rightarrow> js_error + string option" where
  "message_of (ThrownError m) = Inr (Some m)"
| "message_of ThrownNoMessage = Inr None"
| "message_of ThrownNullish = Inl TypeError"

text \<open>The call envelope \<open>{ name, args, id }\<close>.\<close>

record call =
  name :: string
  args :: "val list"
  cid :: nat

text \<open>
  The response envelope. The router tests \<open>"error" in e.data\<close>, so what matters for each
  of \<open>error\<close> and \<open>result\<close> is whether the key is there; an \<open>error\<close> key can hold
  \<open>undefined\<close> (\<open>None\<close>), which structured cloning keeps.
\<close>

datatype 'a field = Absent | Present 'a

record response =
  rid :: nat
  error :: "string option field"
  result :: "val field"

section \<open>The dispatcher at run time (the text appended by the transform)\<close>

text \<open>
  \<open>__worker_exports__\<close> is an object literal, so \<open>__worker_exports__[name]\<close> first looks
  among the literal's own properties and then in \<open>Object.prototype\<close>. The prototype has
  twelve properties in every browser engine. Called as \<open>fn(...args)\<close>, without a receiver,
  \<open>toString\<close> returns the text below whatever the arguments; \<open>__proto__\<close> yields the
  prototype object, which is truthy and not callable. What the other built-in functions
  do when called that way is given by the parameter \<open>builtin\<close>.
\<close>

definition object_prototype :: "(string \<Rightarrow> val list \<Rightarrow> outcome) \<Rightarrow> string \<rightharpoonup> binding" where
  "object_prototype builtin = map_of
     [(''toString'', Fn (\<lambda>args. Returned (VStr ''[object Undefined]''))),
      (''__proto__'', NotCallable True),
      (''constructor'', Fn (builtin ''constructor'')),
      (''hasOwnProperty'', Fn (builtin ''hasOwnProperty'')),
      (''isPrototypeOf'', Fn (builtin ''isPrototypeOf'')),
      (''propertyIsEnumerable'', Fn (builtin ''propertyIsEnumerable'')),
      (''toLocaleString'', Fn (builtin ''toLocaleString'')),
      (''valueOf'', Fn (builtin ''valueOf'')),
      (''__defineGetter__'', Fn (builtin ''__defineGetter__'')),
      (''__defineSetter__'', Fn (builtin ''__defineSetter__'')),
      (''__lookupGetter__'', Fn (builtin ''__lookupGetter__'')),
      (''__lookupSetter__'', Fn (builtin ''__lookupSetter__''))]"

text \<open>
  \<open>own\<close> holds the own properties of the literal \<open>{ e1: e1, e2: e2, ... }\<close>: each
  registered export name with the value it has in the scope of the worker file.
\<close>

definition worker_exports ::
  "(string \<rightharpoonup> binding) \<Rightarrow> (string \<Rightarrow> val list \<Rightarrow> outcome) \<Rightarrow> string \<rightharpoonup> binding" where
  "worker_exports own builtin nm =
     (case own nm of Some b \<Rightarrow> Some b | None \<Rightarrow> object_prototype builtin nm)"

definition not_found :: "call \<Rightarrow> response" where
  "not_found c = \<lparr>rid = cid c, error = Present (Some (''Function not found: '' @ name c)), result = Absent\<rparr>"

text \<open>
  The message handler of the worker (\<open>self.onmessage\<close>, and \<open>port.onmessage\<close> in a shared
  worker: the two bodies differ in the object they post to only). \<open>out\<close> is the sequence
  of messages posted so far; \<open>Inl\<close> is the handler ending with an exception nobody
  catches, before anything is posted.
\<close>

definition worker_onmessage ::
  "(string \<rightharpoonup> binding) \<Rightarrow> call \<Rightarrow> response list \<Rightarrow> js_error + response list" where
  "worker_onmessage exports_obj c out =
     (case exports_obj (name c) of
        None \<Rightarrow> Inr (out @ [not_found c])
      | Some fn \<Rightarrow>
          if falsy fn then Inr (out @ [not_found c])
          else
            (case invoke fn (args c) of
               Returned v \<Rightarrow> Inr (out @ [\<lparr>rid = cid c, error = Absent, result = Present v\<rparr>])
             | Threw e \<Rightarrow>
                 (case message_of e of
                    Inl err \<Rightarrow> Inl err
                  | Inr m \<Rightarrow> Inr (out @ [\<lparr>rid = cid c, error = Present m, result = Absent\<rparr>]))))"

section \<open>The virtual module (src/plugins/unplugin.ts, WorkerPlugin)\<close>

text \<open>
  \<open>load\<close> writes the source of the virtual module of one worker file. The model keeps
  what that source consists of: nothing but \<open>export {}\<close>; one direct-call proxy per export
  (server mode); or the three module variables, \<open>initWorker\<close> and one message-passing
  proxy per export (client mode). \<open>file\<close> is the \<open>source\<close> parameter of the module id.
\<close>

datatype generated =
    EmptyModule
  | ServerModule string "string list"
  | ClientModule string "string list"

definition load :: "opts \<Rightarrow> string \<Rightarrow> generated" where
  "load opts file =
     (case reverseMap (opts_context opts) file of
        None \<Rightarrow> EmptyModule
      | Some exports \<Rightarrow>
          if exports = [] then EmptyModule
          else if mode opts = Client then ClientModule file exports
          else ServerModule file exports)"

subsection \<open>Server mode\<close>

text \<open>
  \<open>const { name: fn } = await import(file); return fn(...args)\<close>. \<open>ns\<close> is the namespace
  object the import resolves to, an object without prototype; a name it does not hold
  reads as \<open>undefined\<close>, and calling that raises.
\<close>

definition server_proxy :: "(string \<rightharpoonup> binding) \<Rightarrow> string \<Rightarrow> val list \<Rightarrow> outcome" where
  "server_proxy ns nm xs =
     (case ns nm of None \<Rightarrow> Threw (ThrownError not_a_function) | Some fn \<Rightarrow> invoke fn xs)"

text \<open>
  \<open>load\<close> splices every name of the export list, as it is, after
  \<open>export async function\<close>. The text is a module, hence strict code, and it parses only
  if every name can name a function declaration there and no name is declared twice. A
  name can do so if it is an identifier name and none of the words below: the reserved
  words, the words reserved in strict code, \<open>await\<close> (reserved in a module), and \<open>eval\<close>
  and \<open>arguments\<close> (which strict code may not bind). \<open>default\<close> is the name that
  \<open>findExportNames\<close> returns for a default export. Which characters outside ASCII an
  identifier may hold is decided by the Unicode tables; the model accepts them all.
\<close>

definition reserved_words :: "string list" where
  "reserved_words =
     [''await'', ''break'', ''case'', ''catch'', ''class'', ''const'', ''continue'', ''debugger'',
      ''default'', ''delete'', ''do'', ''else'', ''enum'', ''export'', ''extends'', ''false'',
      ''finally'', ''for'', ''function'', ''if'', ''import'', ''in'', ''instanceof'', ''new'',
      ''null'', ''return'', ''super'', ''switch'', ''this'', ''throw'', ''true'', ''try'',
      ''typeof'', ''var'', ''void'', ''while'', ''with'', ''yield'',
      ''let'', ''static'', ''implements'', ''interface'', ''package'', ''private'', ''protected'',
      ''public'', ''eval'', ''arguments'']"

definition identifier_start :: "char \<Rightarrow> bool" where
  "identifier_start c =
     (c \<in> set ''abcdefghijklmnopqrstuvwxyzABCDEFGHIJKLMNOPQRSTUVWXYZ$_'' \<or> 128 \<le> (of_char c :: nat))"

definition identifier_part :: "char \<Rightarrow> bool" where
  "identifier_part c = (identifier_start c \<or> c \<in> set ''0123456789'')"

fun identifier_name :: "string \<Rightarrow> bool" where
  "identifier_name [] = False"
| "identifier_name (c # cs) = (identifier_start c \<and> list_all identifier_part cs)"

definition declarable :: "string \<Rightarrow> bool" where
  "declarable nm = (identifier_name nm \<and> nm \<notin> set reserved_words)"

definition server_module_parses :: "string list \<Rightarrow> bool" where
  "server_module_parses exports = (list_all declarable exports \<and> distinct exports)"

subsection \<open>Client mode\<close>

datatype worker_kind = Worker | SharedWorker

text \<open>
  A worker object as \<open>initWorker\<close> leaves it: which constructor made it, for which file,
  whether the message handler is attached and whether the port was started.
\<close>

record worker =
  kind :: worker_kind
  url :: string
  onmessage_attached :: bool
  port_started :: bool

datatype promise_state = Pending | Fulfilled val | Rejected string

text \<open>
  The state of one client-mode virtual module: its variables \<open>map\<close>, \<open>count\<close> and
  \<open>_nuxt_worker\<close>, and the objects it has created. A worker or a promise is referred to
  by its position in the list of the objects created; the pair \<open>[resolve, reject]\<close> kept
  in \<open>map\<close> is represented by the promise it belongs to. \<open>posted\<close> records every
  \<open>postMessage\<close> with the worker it went to. Ids are numbers, and \<open>Object.prototype\<close> has
  no property with a numeric name, so a lookup in \<open>map\<close> finds own entries only.
  \<open>count\<close> is a JavaScript number, which holds every integer below \<open>2^53\<close> exactly; it
  is a natural number here.
\<close>

record client =
  map_tbl :: "nat \<rightharpoonup> nat"
  count :: nat
  nuxt_worker :: "nat option"
  workers :: "worker list"
  promises :: "promise_state list"
  posted :: "(nat \<times> call) list"

definition initial_client :: client where
  "initial_client =
     \<lparr>map_tbl = Map.empty, count = 0, nuxt_worker = None, workers = [], promises = [], posted = []\<rparr>"

text \<open>
  \<open>initWorker\<close>: construct the worker for the file, attach the message handler and, for
  a shared worker, start the port. The constructor is taken to succeed.
\<close>

definition initWorker :: "string \<Rightarrow> client \<Rightarrow> nat \<times> client" where
  "initWorker file st =
     (let isShared = endsWith file ''.shared.ts'';
          w = \<lparr>kind = (if isShared then SharedWorker else Worker), url = file,
               onmessage_attached = True, port_started = isShared\<rparr>
      in (length (workers st), st\<lparr>workers := workers st @ [w]\<rparr>))"

text \<open>A promise is settled by the first call of \<open>resolve\<close> or \<open>reject\<close>; later calls do nothing.\<close>

definition settle :: "nat \<Rightarrow> promise_state \<Rightarrow> client \<Rightarrow> client" where
  "settle p s st =
     (if p < length (promises st) \<and> promises st ! p = Pending
      then st\<lparr>promises := (promises st)[p := s]\<rparr> else st)"

text \<open>The message of \<open>new Error(e.data.error)\<close>: empty when the argument is \<open>undefined\<close>.\<close>

fun error_message :: "string option \<Rightarrow> string" where
  "error_message None = []"
| "error_message (Some m) = m"

text \<open>What a response settles a promise to: rejected if the \<open>error\<close> key is there.\<close>

definition settlement :: "response \<Rightarrow> promise_state" where
  "settlement r =
     (case error r of
        Present m \<Rightarrow> Rejected (error_message m)
      | Absent \<Rightarrow> Fulfilled (case result r of Present v \<Rightarrow> v | Absent \<Rightarrow> VUndefined))"

text \<open>
  The handler \<open>worker.onmessage\<close> (\<open>worker.port.onmessage\<close> for a shared worker, with the
  same body). Destructuring \<open>map[e.data.id]\<close> raises when there is no such entry. The
  handler assigns to nothing but the promise.
\<close>

definition onmessage :: "client \<Rightarrow> response \<Rightarrow> js_error + client" where
  "onmessage st r =
     (case map_tbl st (rid r) of
        None \<Rightarrow> Inl TypeError
      | Some p \<Rightarrow> Inr (settle p (settlement r) st))"

text \<open>
  The body of the proxy generated for the export \<open>nm\<close>, in a module that has loaded; it
  returns the new promise. The names in the body mean what the generated text intends:
  the export names of the module are taken to differ from the module's own \<open>map\<close>,
  \<open>count\<close>, \<open>_nuxt_worker\<close> and \<open>initWorker\<close> and from the globals the text refers to
  (\<open>Worker\<close>, \<open>SharedWorker\<close>, \<open>URL\<close>, \<open>console\<close>, \<open>Promise\<close>, \<open>Error\<close>).
\<close>

definition client_proxy :: "string \<Rightarrow> string \<Rightarrow> val list \<Rightarrow> client \<Rightarrow> nat \<times> client" where
  "client_proxy file nm xs st =
     (let (w, st1) = (case nuxt_worker st of
                        Some w \<Rightarrow> (w, st)
                      | None \<Rightarrow> (let (w, s) = initWorker file st in (w, s\<lparr>nuxt_worker := Some w\<rparr>)));
          i = count st1;
          st2 = st1\<lparr>count := i + 1\<rparr>;
          p = length (promises st2);
          st3 = st2\<lparr>promises := promises st2 @ [Pending]\<rparr>;
          st4 = st3\<lparr>map_tbl := (map_tbl st3)(i \<mapsto> p)\<rparr>
      in (p, st4\<lparr>posted := posted st4 @ [(w, \<lparr>name = nm, args = xs, cid = i\<rparr>)]\<rparr>))"

subsection \<open>Calling an export of a server-mode module\<close>

text \<open>
  A call of the export \<open>nm\<close> of the server-mode module generated for an export list:
  \<open>None\<close> when there is nothing to call, because the module does not parse or has no
  export of that name. A server-mode module has none of the client-mode module variables,
  so a client state goes through the call untouched.
\<close>

definition call_server_export ::
  "string list \<Rightarrow> (string \<rightharpoonup> binding) \<Rightarrow> string \<Rightarrow> val list \<Rightarrow> client \<Rightarrow> (outcome \<times> client) option" where
  "call_server_export exports ns nm xs st =
     (if server_module_parses exports \<and> nm \<in> set exports
      then Some (server_proxy ns nm xs, st) else None)"

subsection \<open>Runs of a client-mode module\<close>

text \<open>
  What happens to a module over time: proxies are called and messages arrive. An exception
  that escapes an event handler is reported by the engine and the next event is handled
  as usual. Before the first call there is no worker, hence no handler to run.
\<close>

datatype event = Call string "val list" | Message response

definition route :: "client \<Rightarrow> response \<Rightarrow> client" where
  "route st r = (case onmessage st r of Inl err \<Rightarrow> st | Inr st' \<Rightarrow> st')"





definition deliver :: "client \<Rightarrow> response list \<Rightarrow> client" where
  "deliver st rs = foldl route st rs"

text \<open>
  The function \<open>sum(a, b) => a + b\<close> of the specification's examples, on the argument
  lists the examples use: two integers. Its value elsewhere is of no interest here.
\<close>

fun sum_fn :: "val list \<Rightarrow> outcome" where
  "sum_fn [VNum a, VNum b] = Returned (VNum (a + b))"
| "sum_fn xs = Returned VUndefined"

section \<open>Registry: first registration wins, a new scan starts from empty tables\<close>

text \<open>
  Claim C8. Registering \<open>x\<close> for \<open>mA\<close> and then for \<open>mB\<close> within one scan leaves
  \<open>x\<close> owned by \<open>mA\<close>, lists \<open>x\<close> under \<open>mA\<close> only, and reports exactly one conflict, the
  one naming \<open>x\<close>, \<open>mB\<close> and \<open>mA\<close>. Registering \<open>x\<close> for \<open>mA\<close> in one scan and for \<open>mB\<close> in
  the next scan, which starts by replacing both tables with empty ones, leaves \<open>x\<close> owned
  by \<open>mB\<close> and reports no conflict.
\<close>

theorem registry_first_wins_and_reset:
  "workerExports (getContents rel [(mA, [x]), (mB, [x])] c) x = Some mA
   \<and> reverseMap (getContents rel [(mA, [x]), (mB, [x])] c) mA = Some [x]
   \<and> warnings (getContents rel [(mA, [x]), (mB, [x])] c) = [duplicate_warning x mB mA]
   \<and> workerExports (getContents rel [(mB, [x])] (context_of (getContents rel [(mA, [x])] c))) x = Some mB
   \<and> warnings (getContents rel [(mB, [x])] (context_of (getContents rel [(mA, [x])] c))) = []"
  by (simp add: getContents_def reset_def Let_def)

section \<open>The transform leaves everything but registered worker files alone\<close>

text \<open>
  Claim C10. In server mode, and for every file whose id, with the query suffix removed, is
  not a key of \<open>reverseMap\<close>, the transform returns nothing, so the file is kept as it is.
  Whenever it does return a replacement, the plugin is in client mode, the file is a
  registered worker file, and the new code is the de-exported source followed by the
  dispatcher text for the names registered for that file.
\<close>

theorem transform_only_registered_client_files:
  "(mode opts = Server \<or> strip_query raw_id \<notin> dom (reverseMap (opts_context opts))
      \<longrightarrow> transform opts deexport generateMap src raw_id = None)
   \<and> (\<forall>r. transform opts deexport generateMap src raw_id = Some r \<longrightarrow>
        mode opts = Client
        \<and> (\<exists>exports. reverseMap (opts_context opts) (strip_query raw_id) = Some exports
              \<and> code r = deexport src @ dispatcher_text (strip_query raw_id) exports))"
  by (cases "mode opts") (auto simp: transform_def Let_def split: option.splits)

theorem transform_only_registered_client_files_witness:
  "transform \<lparr>mode = Server,
              opts_context = \<lparr>workerExports = [''sum'' \<mapsto> ''/w/sum.ts''], reverseMap = [''/w/sum.ts'' \<mapsto> [''sum'']]\<rparr>,
              sourcemap = None\<rparr> (\<lambda>s. s) (\<lambda>s. s) ''export const sum = 1'' ''/w/sum.ts'' = None
   \<and> transform \<lparr>mode = Client,
              opts_context = \<lparr>workerExports = [''sum'' \<mapsto> ''/w/sum.ts''], reverseMap = [''/w/sum.ts'' \<mapsto> [''sum'']]\<rparr>,
              sourcemap = None\<rparr> (\<lambda>s. s) (\<lambda>s. s) ''export const sum = 1'' ''/w/app.ts?v=1'' = None
   \<and> transform \<lparr>mode = Client,
              opts_context = \<lparr>workerExports = [''sum'' \<mapsto> ''/w/sum.ts''], reverseMap = [''/w/sum.ts'' \<mapsto> [''sum'']]\<rparr>,
              sourcemap = None\<rparr> (\<lambda>s. s) (\<lambda>s. s) ''export const sum = 1'' ''/w/sum.ts?v=1''
       = Some \<lparr>code = ''export const sum = 1'' @ regular_dispatcher [''sum''], source_map = None\<rparr>"
proof -
  let ?ctx = "\<lparr>workerExports = [''sum'' \<mapsto> ''/w/sum.ts''], reverseMap = [''/w/sum.ts'' \<mapsto> [''sum'']]\<rparr>"
  let ?srv = "\<lparr>mode = Server, opts_context = ?ctx, sourcemap = None\<rparr>"
  let ?cli = "\<lparr>mode = Client, opts_context = ?ctx, sourcemap = None\<rparr>"
  let ?src = "''export const sum = 1''"
  have s1: "strip_query ''/w/app.ts?v=1'' = ''/w/app.ts''" by simp
  have s2: "strip_query ''/w/sum.ts?v=1'' = ''/w/sum.ts''" by simp
  have a: "transform ?srv (\<lambda>s. s) (\<lambda>s. s) ?src ''/w/sum.ts'' = None"
    using transform_only_registered_client_files [of ?srv "''/w/sum.ts''" "\<lambda>s. s" "\<lambda>s. s" ?src]
    by simp
  have b: "transform ?cli (\<lambda>s. s) (\<lambda>s. s) ?src ''/w/app.ts?v=1'' = None"
    using transform_only_registered_client_files [of ?cli "''/w/app.ts?v=1''" "\<lambda>s. s" "\<lambda>s. s" ?src] s1
    by simp
  have e: "\<not> endsWith ''/w/sum.ts'' ''.shared.ts''" by (simp add: endsWith_def)
  obtain r where r: "transform ?cli (\<lambda>s. s) (\<lambda>s. s) ?src ''/w/sum.ts?v=1'' = Some r"
    using s2 by (simp add: transform_def Let_def)
  have m: "source_map r = None" using r s2 by (auto simp: transform_def Let_def)
  have "code r = ?src @ dispatcher_text ''/w/sum.ts'' [''sum'']"
    using transform_only_registered_client_files [of ?cli "''/w/sum.ts?v=1''" "\<lambda>s. s" "\<lambda>s. s" ?src] r s2
    by simp
  then have "code r = ?src @ regular_dispatcher [''sum'']" using e by (simp add: dispatcher_text_def)
  then have c: "transform ?cli (\<lambda>s. s) (\<lambda>s. s) ?src ''/w/sum.ts?v=1''
       = Some \<lparr>code = ?src @ regular_dispatcher [''sum''], source_map = None\<rparr>"
    using r m by simp
  show ?thesis using a b c by simp
qed

section \<open>Server mode: the proxy is a direct call\<close>

lemma sum_declarable: "declarable ''sum''"
  by (simp add: declarable_def reserved_words_def identifier_start_def identifier_part_def)

lemma default_not_declarable: "\<not> declarable ''default''"
  by (simp add: declarable_def reserved_words_def)

text \<open>
  Claim C9, as stated, fails on the code. A worker file with the function \<open>sum\<close> and a
  default export is registered with the names \<open>sum\<close> and \<open>default\<close>; the server-mode
  module generated for it declares a function named \<open>default\<close>, does not parse, and so
  has no proxy for \<open>sum\<close> that could return 5.
\<close>

theorem server_proxy_default_export_counterexample:
  "load \<lparr>mode = Server,
         opts_context = \<lparr>workerExports = [''sum'' \<mapsto> ''sum.ts'', ''default'' \<mapsto> ''sum.ts''],
                         reverseMap = [''sum.ts'' \<mapsto> [''sum'', ''default'']]\<rparr>,
         sourcemap = None\<rparr> ''sum.ts'' = ServerModule ''sum.ts'' [''sum'', ''default'']
   \<and> \<not> (call_server_export [''sum'', ''default''] [''sum'' \<mapsto> Fn sum_fn, ''default'' \<mapsto> Fn sum_fn]
            ''sum'' [VNum 2, VNum 3] initial_client = Some (Returned (VNum 5), initial_client))"
  using default_not_declarable
  by (simp add: load_def call_server_export_def server_module_parses_def)

text \<open>
  Claim C9, amended. In server mode the module generated for a registered file is the
  server-mode module of the names registered for it. If these names are pairwise distinct
  and each can name a function declaration (an identifier name that is not a reserved
  word), then the proxy of an export \<open>nm\<close>, called with any argument list, yields exactly
  the outcome of the module's own function \<open>nm\<close> on those arguments, returned or thrown,
  and the client state comes back as it was: no envelope is posted, no id is taken, no
  worker and no table entry is created. Otherwise the module does not parse and there is
  no proxy to call.
\<close>

theorem server_proxy_direct_call:
  assumes "mode opts = Server" and "reverseMap (opts_context opts) file = Some exports"
      and "nm \<in> set exports" and "ns nm = Some (Fn f)"
  shows "load opts file = ServerModule file exports
         \<and> call_server_export exports ns nm xs st =
             (if server_module_parses exports then Some (f xs, st) else None)"
proof -
  have "exports \<noteq> []" using assms(3) by auto
  then have "load opts file = ServerModule file exports"
    using assms(1,2) by (simp add: load_def)
  then show ?thesis using assms(3,4) by (simp add: call_server_export_def server_proxy_def)
qed

theorem server_proxy_direct_call_witness:
  "load \<lparr>mode = Server,
         opts_context = \<lparr>workerExports = [''sum'' \<mapsto> ''sum.ts''], reverseMap = [''sum.ts'' \<mapsto> [''sum'']]\<rparr>,
         sourcemap = None\<rparr> ''sum.ts'' = ServerModule ''sum.ts'' [''sum'']
   \<and> server_module_parses [''sum'']
   \<and> call_server_export [''sum''] [''sum'' \<mapsto> Fn sum_fn] ''sum'' [VNum 2, VNum 3] initial_client
       = Some (Returned (VNum 5), initial_client)"
proof -
  have p: "server_module_parses [''sum'']"
    using sum_declarable by (simp add: server_module_parses_def)
  show ?thesis
    using p server_proxy_direct_call
      [of "\<lparr>mode = Server,
            opts_context = \<lparr>workerExports = [''sum'' \<mapsto> ''sum.ts''], reverseMap = [''sum.ts'' \<mapsto> [''sum'']]\<rparr>,
            sourcemap = None\<rparr>" "''sum.ts''" "[''sum'']" "''sum''" "[''sum'' \<mapsto> Fn sum_fn]" sum_fn
          "[VNum 2, VNum 3]" initial_client]
    by simp
qed

section \<open>The dispatcher: one response per call, and where it fails\<close>

text \<open>
  When the name resolves to a function and the invocation settles with a value, or with a
  thrown value that is neither \<open>null\<close> nor \<open>undefined\<close>, the handler posts exactly one
  message, with the id of the call and exactly one of \<open>result\<close> and \<open>error\<close>.
\<close>

lemma dispatcher_one_response:
  assumes "exports_obj (name c) = Some (Fn f)"
  shows "f (args c) = Returned v \<Longrightarrow>
           worker_onmessage exports_obj c out =
             Inr (out @ [\<lparr>rid = cid c, error = Absent, result = Present v\<rparr>])"
    and "f (args c) = Threw (ThrownError m) \<Longrightarrow>
           worker_onmessage exports_obj c out =
             Inr (out @ [\<lparr>rid = cid c, error = Present (Some m), result = Absent\<rparr>])"
    and "f (args c) = Threw ThrownNoMessage \<Longrightarrow>
           worker_onmessage exports_obj c out =
             Inr (out @ [\<lparr>rid = cid c, error = Present None, result = Absent\<rparr>])"
  using assms by (simp_all add: worker_onmessage_def)

lemma dispatcher_never_two:
  "worker_onmessage exports_obj c out = Inr out' \<Longrightarrow> \<exists>r. out' = out @ [r] \<and> rid r = cid c
     \<and> ((error r = Absent) \<noteq> (result r = Absent))"
  by (auto simp: worker_onmessage_def not_found_def split: option.splits if_splits outcome.splits sum.splits)

text \<open>
  Claim C4. The claim fails on the code for a function whose promise is rejected without
  a reason (\<open>Promise.reject()\<close>, or \<open>throw undefined\<close>): the \<open>catch\<close> block reads
  \<open>e.message\<close> of \<open>undefined\<close>, which raises inside the handler, and no response is posted
  for the call.
\<close>

theorem nullish_rejection_gets_no_response:
  "worker_onmessage (worker_exports [''f'' \<mapsto> Fn (\<lambda>xs. Threw ThrownNullish)] builtin)
     \<lparr>name = ''f'', args = [], cid = 0\<rparr> [] = Inl TypeError"
  by (simp add: worker_onmessage_def worker_exports_def)

text \<open>
  A name that is neither an own property of the export table nor a property of
  \<open>Object.prototype\<close> gets the "Function not found" response.
\<close>

lemma unknown_name_not_found:
  assumes "own (name c) = None" and "object_prototype builtin (name c) = None"
  shows "worker_onmessage (worker_exports own builtin) c out = Inr (out @ [not_found c])"
  using assms by (simp add: worker_onmessage_def worker_exports_def)

text \<open>
  Claim C5. The claim fails on the code for a name that the export table does not hold
  but \<open>Object.prototype\<close> does: for \<open>toString\<close> the lookup finds the inherited function,
  the dispatcher calls it and posts its return value as a result, not the error
  "Function not found: toString".
\<close>

theorem inherited_name_is_found:
  "worker_onmessage (worker_exports [''sum'' \<mapsto> Fn sum_fn] builtin)
     \<lparr>name = ''toString'', args = [], cid = 0\<rparr> [] =
   Inr [\<lparr>rid = 0, error = Absent, result = Present (VStr ''[object Undefined]'')\<rparr>]"
  by (simp add: worker_onmessage_def worker_exports_def object_prototype_def)

text \<open>The two round trips of the specification's examples.\<close>

lemma sum_round_trip:
  "posted (snd (client_proxy ''sum.ts'' ''sum'' [VNum 2, VNum 3] initial_client)) =
     [(0, \<lparr>name = ''sum'', args = [VNum 2, VNum 3], cid = 0\<rparr>)]
   \<and> worker_onmessage (worker_exports [''sum'' \<mapsto> Fn sum_fn] builtin)
     \<lparr>name = ''sum'', args = [VNum 2, VNum 3], cid = 0\<rparr> [] =
     Inr [\<lparr>rid = 0, error = Absent, result = Present (VNum 5)\<rparr>]
   \<and> promises (route (snd (client_proxy ''sum.ts'' ''sum'' [VNum 2, VNum 3] initial_client))
        \<lparr>rid = 0, error = Absent, result = Present (VNum 5)\<rparr>) ! 0 = Fulfilled (VNum 5)"
  by (simp add: worker_onmessage_def worker_exports_def object_prototype_def not_found_def
        client_proxy_def initWorker_def initial_client_def Let_def route_def onmessage_def
        settle_def settlement_def)

lemma missing_round_trip:
  "worker_onmessage (worker_exports [''sum'' \<mapsto> Fn sum_fn] builtin)
     \<lparr>name = ''missing'', args = [], cid = 0\<rparr> [] =
     Inr [\<lparr>rid = 0, error = Present (Some ''Function not found: missing''), result = Absent\<rparr>]
   \<and> promises (route (snd (client_proxy ''sum.ts'' ''missing'' [] initial_client))
        \<lparr>rid = 0, error = Present (Some ''Function not found: missing''), result = Absent\<rparr>) ! 0
      = Rejected ''Function not found: missing''"
  by (simp add: worker_onmessage_def worker_exports_def object_prototype_def not_found_def
        client_proxy_def initWorker_def initial_client_def Let_def route_def onmessage_def
        settle_def settlement_def)

section \<open>The response router\<close>

subsection \<open>What the handler and a proxy call change\<close>

lemma settle_fields [simp]:
  "map_tbl (settle p s st) = map_tbl st" "count (settle p s st) = count st"
  "nuxt_worker (settle p s st) = nuxt_worker st" "workers (settle p s st) = workers st"
  "posted (settle p s st) = posted st" "length (promises (settle p s st)) = length (promises st)"
  by (simp_all add: settle_def)

lemma route_fields [simp]:
  "map_tbl (route st r) = map_tbl st" "count (route st r) = count st"
  "nuxt_worker (route st r) = nuxt_worker st" "workers (route st r) = workers st"
  "posted (route st r) = posted st" "length (promises (route st r)) = length (promises st)"
  by (simp_all add: route_def onmessage_def split: option.splits)

lemma deliver_fields [simp]:
  "map_tbl (deliver st rs) = map_tbl st" "count (deliver st rs) = count st"
  "nuxt_worker (deliver st rs) = nuxt_worker st" "workers (deliver st rs) = workers st"
  "posted (deliver st rs) = posted st" "length (promises (deliver st rs)) = length (promises st)"
  unfolding deliver_def by (induction rs arbitrary: st) simp_all











subsection \<open>Correlation ids\<close>



subsection \<open>One worker per module\<close>







subsection \<open>Responses settle the call they name\<close>








subsection \<open>The table entry after settlement\<close>

text \<open>
  Claim C2, as stated, fails on the code: the handler never removes anything from
  \<open>map\<close>. After a call and its response the entry for id 0 is still there.
\<close>

theorem entry_not_removed_counterexample:
  "onmessage (snd (client_proxy ''sum.ts'' ''sum'' [VNum 2, VNum 3] initial_client))
       \<lparr>rid = 0, error = Absent, result = Present (VNum 5)\<rparr> \<noteq> Inl TypeError
   \<and> \<not> (map_tbl (route (snd (client_proxy ''sum.ts'' ''sum'' [VNum 2, VNum 3] initial_client))
       \<lparr>rid = 0, error = Absent, result = Present (VNum 5)\<rparr>) 0 = None)"
  by (simp add: client_proxy_def initWorker_def initial_client_def Let_def route_def onmessage_def
      settle_def settlement_def)

text \<open>
  Claim C2, amended. When the handler finds the id of a response in the table, it settles
  the promise of that entry if it is still pending and leaves the table as it was. The
  promise is settled from then on, and a later response with the same id, which finds the
  same entry and calls \<open>resolve\<close> or \<open>reject\<close> again, changes nothing at all: a call is
  settled at most once, by the first response that names it.
\<close>

theorem settled_once_entry_kept:
  assumes "map_tbl st (rid r) = Some p" and "p < length (promises st)" and "rid r' = rid r"
  shows "\<exists>st1. onmessage st r = Inr st1 \<and> map_tbl st1 = map_tbl st
           \<and> promises st1 ! p \<noteq> Pending
           \<and> (promises st ! p = Pending \<longrightarrow> promises st1 ! p = settlement r)
           \<and> onmessage st1 r' = Inr st1"
proof -
  have ns: "settlement x \<noteq> Pending" for x
    by (simp add: settlement_def split: field.splits)
  let ?st1 = "settle p (settlement r) st"
  have a: "onmessage st r = Inr ?st1" using assms(1) by (simp add: onmessage_def)
  have b: "promises ?st1 ! p \<noteq> Pending" using assms(2) ns [of r] by (simp add: settle_def)
  have c: "promises st ! p = Pending \<longrightarrow> promises ?st1 ! p = settlement r"
    using assms(2) by (simp add: settle_def)
  have d: "settle p (settlement r') ?st1 = ?st1" using b by (simp add: settle_def)
  have e: "onmessage ?st1 r' = Inr ?st1" using assms(1,3) d by (simp add: onmessage_def)
  show ?thesis using a b c e by simp
qed

theorem settled_once_entry_kept_witness:
  "\<exists>st1. onmessage (snd (client_proxy ''sum.ts'' ''sum'' [VNum 2, VNum 3] initial_client))
            \<lparr>rid = 0, error = Absent, result = Present (VNum 5)\<rparr> = Inr st1
        \<and> map_tbl st1 = map_tbl (snd (client_proxy ''sum.ts'' ''sum'' [VNum 2, VNum 3] initial_client))
        \<and> promises st1 ! 0 \<noteq> Pending
        \<and> promises st1 ! 0 = Fulfilled (VNum 5)
        \<and> onmessage st1 \<lparr>rid = 0, error = Present (Some ''late''), result = Absent\<rparr> = Inr st1"
  using settled_once_entry_kept
    [of "snd (client_proxy ''sum.ts'' ''sum'' [VNum 2, VNum 3] initial_client)"
        "\<lparr>rid = 0, error = Absent, result = Present (VNum 5)\<rparr>" 0
        "\<lparr>rid = 0, error = Present (Some ''late''), result = Absent\<rparr>"]
  by (simp add: client_proxy_def initWorker_def initial_client_def Let_def settlement_def)

subsection \<open>A response with an unknown id\<close>

text \<open>
  A response whose id has no entry makes the handler raise; it changes no promise and
  nothing else, and the next message is handled as usual.
\<close>

lemma unknown_id_raises:
  "map_tbl st (rid r) = None \<Longrightarrow> onmessage st r = Inl TypeError \<and> route st r = st"
  by (simp add: onmessage_def route_def)

text \<open>
  Claim C3. The claim fails on the code: with one call outstanding under id 0, a response
  bearing the id 7 is not ignored silently; destructuring the missing entry raises a
  \<open>TypeError\<close> in the handler.
\<close>

theorem unknown_id_raises_TypeError:
  "onmessage (snd (client_proxy ''sum.ts'' ''sum'' [VNum 2, VNum 3] initial_client))
     \<lparr>rid = 7, error = Absent, result = Present (VNum 1)\<rparr> = Inl TypeError"
  by (simp add: client_proxy_def initWorker_def initial_client_def Let_def onmessage_def)

end
